theory Spec2Isabelle
  imports Complex_Main "HOL-Library.Sublist"
begin

section \<open>JavaScript values used by the gateway\<close>

text \<open>
  The gateway is \<^verbatim>\<open>server.js\<close> (an Express application), the provider registry is
  \<^verbatim>\<open>utils/providers.js\<close> and the SDK adapter is \<^verbatim>\<open>utils/providers/gemini.js\<close>.
  Strings are \<^typ>\<open>string\<close>; a \<^typ>\<open>char\<close> stands for one code unit below 256, so the
  white space that \<^verbatim>\<open>String.prototype.trim\<close> removes is, in this range, TAB, LF, VT, FF,
  CR, SPACE and NBSP. A value that may be \<^verbatim>\<open>undefined\<close> is an \<^typ>\<open>'a option\<close>.
\<close>

definition is_js_space :: "char \<Rightarrow> bool" where
  "is_js_space c = (of_char c \<in> {9, 10, 11, 12, 13, 32, 160 :: nat})"

definition trim :: "string \<Rightarrow> string" where
  "trim s = rev (dropWhile is_js_space (rev (dropWhile is_js_space s)))"

text \<open>Truthiness of a string-or-undefined value: \<^verbatim>\<open>undefined\<close> and \<^verbatim>\<open>""\<close> are falsy.\<close>

definition truthy :: "string option \<Rightarrow> bool" where
  "truthy v = (case v of None \<Rightarrow> False | Some s \<Rightarrow> s \<noteq> [])"

text \<open>\<^verbatim>\<open>a || b\<close> on string-or-undefined values.\<close>

definition js_or :: "string option \<Rightarrow> string option \<Rightarrow> string option" where
  "js_or a b = (if truthy a then a else b)"

text \<open>A template literal prints \<^verbatim>\<open>undefined\<close> and \<^verbatim>\<open>null\<close> by their names.\<close>

definition js_str :: "string option \<Rightarrow> string" where
  "js_str v = (case v of None \<Rightarrow> ''undefined'' | Some s \<Rightarrow> s)"

text \<open>
  \<^verbatim>\<open>parseInt(v)\<close> with no radix: leading white space is skipped, one sign is read, a
  \<^verbatim>\<open>0x\<close> prefix selects radix 16, and the longest prefix of digits is the value; with no
  digit the result is \<^verbatim>\<open>NaN\<close>, here \<^const>\<open>None\<close>. \<^verbatim>\<open>parseInt(undefined)\<close> reads the text
  \<^verbatim>\<open>undefined\<close> and is \<^verbatim>\<open>NaN\<close>. Numbers are unbounded integers (the rounding of values
  beyond \<open>2\<^sup>5\<^sup>3\<close> is not modelled).
\<close>

definition digit_of :: "nat \<Rightarrow> char \<Rightarrow> nat option" where
  "digit_of r c =
     (let n = (of_char c :: nat);
          v = (if 48 \<le> n \<and> n \<le> 57 then Some (n - 48)
               else if 97 \<le> n \<and> n \<le> 122 then Some (n - 87)
               else if 65 \<le> n \<and> n \<le> 90 then Some (n - 55)
               else None)
      in case v of None \<Rightarrow> None | Some d \<Rightarrow> if d < r then Some d else None)"

fun parse_digits :: "nat \<Rightarrow> string \<Rightarrow> nat option \<Rightarrow> nat option" where
  "parse_digits r [] acc = acc"
| "parse_digits r (c # cs) acc =
     (case digit_of r c of
        None \<Rightarrow> acc
      | Some d \<Rightarrow> parse_digits r cs (Some (r * (case acc of None \<Rightarrow> 0 | Some a \<Rightarrow> a) + d)))"

definition parseInt :: "string option \<Rightarrow> int option" where
  "parseInt v =
     (case v of
        None \<Rightarrow> None
      | Some s \<Rightarrow>
          (let s1 = dropWhile is_js_space s;
               neg = (take 1 s1 = ''-'');
               s2 = (if take 1 s1 = ''-'' \<or> take 1 s1 = ''+'' then drop 1 s1 else s1);
               hex = (take 2 s2 = ''0x'' \<or> take 2 s2 = ''0X'');
               ds = (if hex then parse_digits 16 (drop 2 s2) None else parse_digits 10 s2 None)
           in map_option (\<lambda>n. if neg then - int n else int n) ds))"

text \<open>\<^verbatim>\<open>x || d\<close> on a number: \<^verbatim>\<open>NaN\<close> and \<open>0\<close> are falsy.\<close>

definition num_or :: "'a::zero option \<Rightarrow> 'a \<Rightarrow> 'a" where
  "num_or x d = (case x of None \<Rightarrow> d | Some n \<Rightarrow> if n = 0 then d else n)"

text \<open>
  A plain object literal inherits the properties of \<^verbatim>\<open>Object.prototype\<close>: reading one of
  these names from \<^verbatim>\<open>{}\<close> yields a function (or, for \<^verbatim>\<open>__proto__\<close>, the prototype itself),
  which is truthy and has none of the fields the gateway stores.
\<close>

definition object_prototype_keys :: "string list" where
  "object_prototype_keys =
     [''constructor'', ''__defineGetter__'', ''__defineSetter__'', ''hasOwnProperty'',
      ''__lookupGetter__'', ''__lookupSetter__'', ''isPrototypeOf'', ''propertyIsEnumerable'',
      ''toString'', ''valueOf'', ''__proto__'', ''toLocaleString'']"

text \<open>A thrown exception, with its \<^verbatim>\<open>message\<close>.\<close>

datatype js_error = TypeError string | Error string

fun error_message :: "js_error \<Rightarrow> string" where
  "error_message (TypeError m) = m"
| "error_message (Error m) = m"

section \<open>Process environment and startup configuration\<close>

type_synonym environment = "string \<Rightarrow> string option"

text \<open>
  \<^verbatim>\<open>const DEFAULT_MAX_TOKENS = parseInt(process.env.DEFAULT_MAX_TOKENS) || 8000;\<close>
  \<^verbatim>\<open>const DEFAULT_TEMPERATURE = parseFloat(process.env.DEFAULT_TEMPERATURE) || 0.7;\<close>
  \<^verbatim>\<open>const IP_RATE_LIMIT = parseInt(process.env.IP_RATE_LIMIT) || 100;\<close>
  The built-in \<^verbatim>\<open>parseFloat\<close> on the text of a variable is a parameter \<open>pf\<close> (with
  \<^const>\<open>None\<close> for \<^verbatim>\<open>NaN\<close>), and \<^verbatim>\<open>parseFloat(undefined)\<close> is \<^verbatim>\<open>NaN\<close>; the temperature
  is only ever selected and forwarded, never computed with.
\<close>

definition DEFAULT_MAX_TOKENS :: "environment \<Rightarrow> int" where
  "DEFAULT_MAX_TOKENS env = num_or (parseInt (env ''DEFAULT_MAX_TOKENS'')) 8000"

definition DEFAULT_TEMPERATURE :: "(string \<Rightarrow> real option) \<Rightarrow> environment \<Rightarrow> real" where
  "DEFAULT_TEMPERATURE pf env =
     num_or (case env ''DEFAULT_TEMPERATURE'' of None \<Rightarrow> None | Some s \<Rightarrow> pf s) 0.7"

definition IP_RATE_LIMIT :: "environment \<Rightarrow> int" where
  "IP_RATE_LIMIT env = num_or (parseInt (env ''IP_RATE_LIMIT'')) 100"

section \<open>Rate limiting middleware\<close>

record request =
  path :: string
  x_forwarded_for :: "string option"
  connection_remoteAddress :: "string option"
  socket_remoteAddress :: "string option"

text \<open>\<^verbatim>\<open>req.rateLimit\<close>; the early exits set only \<^verbatim>\<open>limited\<close>.\<close>

record rateLimit =
  limited :: bool
  requestCount :: "nat option"
  remainingRequests :: "int option"
  clientIp :: "string option"
  resetTime :: "int option"

text \<open>
  The middleware either calls \<^verbatim>\<open>next()\<close> or answers 429 with \<^verbatim>\<open>waitTimeMinutes\<close> and
  \<^verbatim>\<open>resetTime\<close> (the message text repeats \<^verbatim>\<open>waitTimeMinutes\<close> and is left out). A number is
  \<^const>\<open>None\<close> when it is \<^verbatim>\<open>Infinity\<close>, which is what \<^verbatim>\<open>Math.min()\<close> of no argument gives.
\<close>

datatype mw_result = Next rateLimit | Status429 "int option" "int option"

type_synonym ipRequestCache = "string \<rightharpoonup> int list"

definition ends_with :: "string \<Rightarrow> string \<Rightarrow> bool" where
  "ends_with s suf = (length suf \<le> length s \<and> drop (length s - length suf) s = suf)"

text \<open>\<^verbatim>\<open>req.path.match(/\.(js|css|ico|png|jpg|svg|woff|woff2|ttf|eot)$/)\<close>\<close>

definition is_static_path :: "string \<Rightarrow> bool" where
  "is_static_path p =
     list_ex (\<lambda>ext. ends_with p (CHR ''.'' # ext))
       [''js'', ''css'', ''ico'', ''png'', ''jpg'', ''svg'', ''woff'', ''woff2'', ''ttf'', ''eot'']"

text \<open>
  \<^verbatim>\<open>req.headers['x-forwarded-for']?.split(',')[0] || req.connection.remoteAddress ||
  req.socket.remoteAddress || 'unknown'\<close>
\<close>

definition client_ip :: "request \<Rightarrow> string" where
  "client_ip req =
     js_str (js_or (js_or (js_or
        (map_option (takeWhile (\<lambda>c. c \<noteq> CHR '','')) (x_forwarded_for req))
        (connection_remoteAddress req))
        (socket_remoteAddress req))
        (Some ''unknown''))"

text \<open>\<^verbatim>\<open>Math.min(...xs)\<close> and \<^verbatim>\<open>Math.ceil(x / 60000)\<close> on integers.\<close>

definition js_min :: "int list \<Rightarrow> int option" where
  "js_min xs = (case xs of [] \<Rightarrow> None | x # ys \<Rightarrow> Some (fold min ys x))"

definition ceil_div :: "int \<Rightarrow> int \<Rightarrow> int" where
  "ceil_div x d = - ((- x) div d)"

definition no_limit :: rateLimit where
  "no_limit = \<lparr>limited = False, requestCount = None, remainingRequests = None,
               clientIp = None, resetTime = None\<rparr>"

text \<open>The array stored for a client, empty when the client has no entry yet.\<close>

definition timestamps_of :: "ipRequestCache \<Rightarrow> string \<Rightarrow> int list" where
  "timestamps_of cache ip = (case cache ip of None \<Rightarrow> [] | Some ts \<Rightarrow> ts)"

text \<open>
  The middleware, with the limit computed at startup, the cache it mutates and the clock
  reading \<^verbatim>\<open>Date.now()\<close>. When the client key is a name inherited from
  \<^verbatim>\<open>Object.prototype\<close> and not yet an own property of the cache, the cached value is not an
  array and \<^verbatim>\<open>.filter\<close> throws.
\<close>

definition rate_limit_middleware ::
  "int \<Rightarrow> ipRequestCache \<Rightarrow> request \<Rightarrow> int \<Rightarrow> (js_error + mw_result) \<times> ipRequestCache" where
  "rate_limit_middleware cap cache req now =
     (if cap \<le> 0 then (Inr (Next no_limit), cache)
      else if is_static_path (path req) then (Inr (Next no_limit), cache)
      else
        (let ip = client_ip req; hourAgo = now - 3600000 in
         if cache ip = None \<and> ip \<in> set object_prototype_keys
         then (Inl (TypeError ''ipRequestCache[clientIp].filter is not a function''), cache)
         else
           (let stored = timestamps_of cache ip;
                kept = filter (\<lambda>timestamp. timestamp > hourAgo) stored;
                count = length kept;
                over = (int count \<ge> cap);
                reset = (if over then map_option (\<lambda>m. m + 3600000) (js_min kept) else None)
            in if over
               then (Inr (Status429 (map_option (\<lambda>r. ceil_div (r - now) 60000) reset) reset),
                     cache(ip \<mapsto> kept))
               else (Inr (Next \<lparr>limited = False, requestCount = Some count,
                                 remainingRequests = Some (cap - int count),
                                 clientIp = Some ip, resetTime = None\<rparr>),
                     cache(ip \<mapsto> kept @ [now])))))"

text \<open>
  The periodic cleanup (\<^verbatim>\<open>setInterval\<close>, every five minutes): every stored array is
  filtered by the cutoff and an entry left empty is deleted.
\<close>

definition cleanup :: "ipRequestCache \<Rightarrow> int \<Rightarrow> ipRequestCache" where
  "cleanup cache now =
     (\<lambda>ip. case cache ip of
             None \<Rightarrow> None
           | Some ts \<Rightarrow>
               (let kept = filter (\<lambda>timestamp. timestamp > now - 3600000) ts
                in if kept = [] then None else Some kept))"

text \<open>
  What happens to the cache over time, as seen by one client: the client sends its request
  at some clock reading, or the cleanup runs at some clock reading.
\<close>

datatype tick = Request int | Sweep int

fun time_of :: "tick \<Rightarrow> int" where
  "time_of (Request t) = t"
| "time_of (Sweep t) = t"

fun request_times :: "tick list \<Rightarrow> int list" where
  "request_times [] = []"
| "request_times (Request t # es) = t # request_times es"
| "request_times (Sweep t # es) = request_times es"

fun run ::
  "int \<Rightarrow> request \<Rightarrow> ipRequestCache \<Rightarrow> tick list \<Rightarrow> (js_error + mw_result) list \<times> ipRequestCache" where
  "run cap req cache [] = ([], cache)"
| "run cap req cache (Request t # es) =
     (let (r, cache1) = rate_limit_middleware cap cache req t;
          (rs, cache2) = run cap req cache1 es
      in (r # rs, cache2))"
| "run cap req cache (Sweep t # es) = run cap req (cleanup cache t) es"

text \<open>
  A request is admitted when the middleware has checked it against the limit and let it
  through; \<^verbatim>\<open>req.rateLimit\<close> then carries the count. The two early exits, for a limiter
  that is switched off and for a static asset, check nothing.
\<close>

definition admitted :: "js_error + mw_result \<Rightarrow> bool" where
  "admitted r = (case r of Inr (Next info) \<Rightarrow> requestCount info \<noteq> None | _ \<Rightarrow> False)"

text \<open>The scenario of the specification: client 1.2.3.4 calling \<^verbatim>\<open>/api/ask-ai\<close>.\<close>

definition client_1234 :: request where
  "client_1234 = \<lparr>path = ''/api/ask-ai'', x_forwarded_for = Some ''1.2.3.4'',
                   connection_remoteAddress = None, socket_remoteAddress = None\<rparr>"

section \<open>Provider registry\<close>

text \<open>
  An entry of \<^verbatim>\<open>PROVIDERS\<close> with the fields the gateway reads (\<^verbatim>\<open>models\<close>,
  \<^verbatim>\<open>maxTokens\<close>, \<^verbatim>\<open>supportsStreaming\<close>, \<^verbatim>\<open>description\<close> and \<^verbatim>\<open>modelDisplayNames\<close> are
  never read by \<^verbatim>\<open>server.js\<close>). The Gemini entry has no \<^verbatim>\<open>baseUrl\<close>.
\<close>

record providerConfig =
  name :: string
  apiKeyEnv :: string
  modelEnv :: string
  baseUrl :: "string option"
  defaultModel :: string

text \<open>The registry in declaration order, which is the order of \<^verbatim>\<open>Object.keys(PROVIDERS)\<close>.\<close>

definition PROVIDERS :: "(string \<times> providerConfig) list" where
  "PROVIDERS =
     [(''openai'', \<lparr>name = ''OpenAI'', apiKeyEnv = ''OPENAI_API_KEY'', modelEnv = ''OPENAI_MODEL'',
         baseUrl = Some ''https://api.openai.com/v1'', defaultModel = ''gpt-4o''\<rparr>),
      (''openrouter'', \<lparr>name = ''OpenRouter'', apiKeyEnv = ''OPENROUTER_API_KEY'',
         modelEnv = ''OPENROUTER_MODEL'', baseUrl = Some ''https://openrouter.ai/api/v1'',
         defaultModel = ''deepseek/deepseek-chat-v3.1''\<rparr>),
      (''xai'', \<lparr>name = ''XAI (Grok)'', apiKeyEnv = ''XAI_API_KEY'', modelEnv = ''XAI_MODEL'',
         baseUrl = Some ''https://api.x.ai/v1'', defaultModel = ''grok-4''\<rparr>),
      (''groq'', \<lparr>name = ''Groq'', apiKeyEnv = ''GROQ_API_KEY'', modelEnv = ''GROQ_MODEL'',
         baseUrl = Some ''https://api.groq.com/openai/v1'',
         defaultModel = ''llama-3.3-70b-versatile''\<rparr>),
      (''perplexity'', \<lparr>name = ''Perplexity'', apiKeyEnv = ''PERPLEXITY_API_KEY'',
         modelEnv = ''PERPLEXITY_MODEL'', baseUrl = Some ''https://api.perplexity.ai'',
         defaultModel = ''llama-3.1-sonar-large-128k-online''\<rparr>),
      (''gemini'', \<lparr>name = ''Google Gemini'', apiKeyEnv = ''GEMINI_API_KEY'',
         modelEnv = ''GEMINI_MODEL'', baseUrl = None, defaultModel = ''gemini-1.5-pro''\<rparr>)]"

definition provider_keys :: "string list" where
  "provider_keys = map fst PROVIDERS"

text \<open>
  \<^verbatim>\<open>PROVIDERS[key]\<close>: an entry of the registry, or a value inherited from
  \<^verbatim>\<open>Object.prototype\<close>, or \<^verbatim>\<open>undefined\<close>. Reading a field of an inherited value gives
  \<^verbatim>\<open>undefined\<close>, except \<^verbatim>\<open>name\<close> on a function.
\<close>

datatype property = Own providerConfig | Inherited string

definition PROVIDERS_get :: "string \<Rightarrow> property option" where
  "PROVIDERS_get key =
     (case map_of PROVIDERS key of
        Some c \<Rightarrow> Some (Own c)
      | None \<Rightarrow> if key \<in> set object_prototype_keys then Some (Inherited key) else None)"

fun name_of :: "property \<Rightarrow> string option" where
  "name_of (Own c) = Some (name c)"
| "name_of (Inherited k) =
     (if k = ''constructor'' then Some ''Object'' else if k = ''__proto__'' then None else Some k)"

fun apiKeyEnv_of :: "property \<Rightarrow> string option" where
  "apiKeyEnv_of (Own c) = Some (apiKeyEnv c)"
| "apiKeyEnv_of (Inherited k) = None"

fun modelEnv_of :: "property \<Rightarrow> string option" where
  "modelEnv_of (Own c) = Some (modelEnv c)"
| "modelEnv_of (Inherited k) = None"

fun baseUrl_of :: "property \<Rightarrow> string option" where
  "baseUrl_of (Own c) = baseUrl c"
| "baseUrl_of (Inherited k) = None"

fun defaultModel_of :: "property \<Rightarrow> string option" where
  "defaultModel_of (Own c) = Some (defaultModel c)"
| "defaultModel_of (Inherited k) = None"

text \<open>\<^verbatim>\<open>process.env[k]\<close>, where an \<^verbatim>\<open>undefined\<close> key reads the variable named \<^verbatim>\<open>undefined\<close>.\<close>

definition process_env :: "environment \<Rightarrow> string option \<Rightarrow> string option" where
  "process_env env k = env (js_str k)"

section \<open>Conversation store\<close>

record message =
  role :: string
  content :: string

text \<open>
  Modelled from the spec: the schema of table \<^verbatim>\<open>chat_messages\<close> is not in the sources. A
  persisted chat turn has a session id, a role, a content and a creation timestamp; the row
  also keeps the \<^verbatim>\<open>timestamp\<close> field that \<^verbatim>\<open>saveMessage\<close> is given. Instants are integers.
\<close>

record chat_message = message +
  session_id :: string
  timestamp :: int
  created_at :: int

text \<open>
  The Supabase client is \<^verbatim>\<open>null\<close> (\<^const>\<open>None\<close>) when it is not configured. A configured
  database holds the rows in insertion order; when it is not \<open>reachable\<close>, an insert and a
  select both return an error, which the helpers log and swallow.
\<close>

record database =
  chat_messages :: "chat_message list"
  reachable :: bool

type_synonym supabase = "database option"

text \<open>
  \<^verbatim>\<open>saveMessage(messageData)\<close>: the row inserted is the message data with the creation
  instant set by the database, taken here to be the instant of the call.
\<close>

definition saveMessage :: "supabase \<Rightarrow> chat_message \<Rightarrow> supabase" where
  "saveMessage sb messageData =
     (case sb of
        None \<Rightarrow> None
      | Some db \<Rightarrow>
          if reachable db then Some (db\<lparr>chat_messages := chat_messages db @ [messageData]\<rparr>)
          else Some db)"

text \<open>
  \<^verbatim>\<open>.select('*').eq('session_id', sessionId).order('created_at', {ascending: true}).limit(50)\<close>:
  the rows of the session, sorted by ascending creation instant (rows with equal instants
  stay in insertion order), cut after the first 50.
\<close>

definition getChatHistory :: "supabase \<Rightarrow> string \<Rightarrow> chat_message list" where
  "getChatHistory sb sessionId =
     (case sb of
        None \<Rightarrow> []
      | Some db \<Rightarrow>
          if reachable db
          then take 50 (sort_key created_at
                          (filter (\<lambda>row. session_id row = sessionId) (chat_messages db)))
          else [])"

section \<open>Gemini adapter\<close>

datatype json_num = JNull | JNum real

record generation_options =
  maxTokens :: "int option"
  temperature :: "json_num option"

datatype HarmCategory =
  HARM_CATEGORY_UNSPECIFIED | HARM_CATEGORY_HATE_SPEECH | HARM_CATEGORY_SEXUALLY_EXPLICIT
| HARM_CATEGORY_HARASSMENT | HARM_CATEGORY_DANGEROUS_CONTENT

datatype HarmBlockThreshold =
  HARM_BLOCK_THRESHOLD_UNSPECIFIED | BLOCK_LOW_AND_ABOVE | BLOCK_MEDIUM_AND_ABOVE
| BLOCK_ONLY_HIGH | BLOCK_NONE

text \<open>A content of the SDK: \<^verbatim>\<open>{ role, parts: [{ text }, ...] }\<close>.\<close>

record gemini_content =
  gemini_role :: string
  parts :: "string list"

record generationConfig =
  config_temperature :: real
  topP :: real
  topK :: int
  maxOutputTokens :: int

text \<open>
  What \<^verbatim>\<open>generateResponse\<close> hands to the SDK before anything is sent: the model name given
  to \<^verbatim>\<open>getGenerativeModel\<close> and the argument of \<^verbatim>\<open>startChat\<close>.
\<close>

record gemini_session =
  model_name :: string
  generation_config :: generationConfig
  safetySettings :: "(HarmCategory \<times> HarmBlockThreshold) list"
  history :: "gemini_content list"
  systemInstruction :: "gemini_content option"

text \<open>The chat session together with the text given to \<^verbatim>\<open>sendMessage\<close>.\<close>

record gemini_call =
  session :: gemini_session
  lastMessage :: string

text \<open>What the SDK answers: the text of the response and \<^verbatim>\<open>usageMetadata?.totalTokenCount\<close>.\<close>

record gemini_response =
  response_text :: string
  totalTokenCount :: "int option"

record provider_result =
  result_text :: "string option"
  total_tokens :: int

definition chatMessages :: "message list \<Rightarrow> gemini_content list" where
  "chatMessages messages =
     map (\<lambda>m. \<lparr>gemini_role = (if role m = ''assistant'' then ''model'' else ''user''),
                parts = [content m]\<rparr>)
         (filter (\<lambda>m. role m \<noteq> ''system'') messages)"

text \<open>\<^verbatim>\<open>messages.find(m => m.role === 'system')?.content\<close>\<close>

definition system_instruction_of :: "message list \<Rightarrow> string option" where
  "system_instruction_of messages =
     map_option content (find (\<lambda>m. role m = ''system'') messages)"

text \<open>
  The chat session that \<^verbatim>\<open>generateResponse(modelName, messages, options)\<close> starts, for
  any message list: \<^verbatim>\<open>chatMessages.slice(0, -1)\<close> of no message is the empty history.
\<close>

definition startChat :: "string option \<Rightarrow> message list \<Rightarrow> generation_options \<Rightarrow> gemini_session" where
  "startChat modelName messages options =
     (let systemInstr = system_instruction_of messages in
      \<lparr>model_name = (if truthy modelName then js_str modelName else ''gemini-1.5-pro''),
       generation_config =
         \<lparr>config_temperature = (case temperature options of Some (JNum x) \<Rightarrow> x | _ \<Rightarrow> 0.7),
          topP = 0.95, topK = 40,
          maxOutputTokens = (case maxTokens options of Some n \<Rightarrow> n | None \<Rightarrow> 8192)\<rparr>,
       safetySettings =
         [(HARM_CATEGORY_HARASSMENT, BLOCK_MEDIUM_AND_ABOVE),
          (HARM_CATEGORY_HATE_SPEECH, BLOCK_MEDIUM_AND_ABOVE),
          (HARM_CATEGORY_SEXUALLY_EXPLICIT, BLOCK_MEDIUM_AND_ABOVE),
          (HARM_CATEGORY_DANGEROUS_CONTENT, BLOCK_MEDIUM_AND_ABOVE)],
       history = butlast (chatMessages messages),
       systemInstruction =
         (if truthy systemInstr
          then Some \<lparr>gemini_role = ''system'', parts = [js_str systemInstr]\<rparr>
          else None)\<rparr>)"

text \<open>
  The request that \<^verbatim>\<open>generateResponse\<close> sends in that session, or the exception of
  \<^verbatim>\<open>chatMessages[chatMessages.length - 1].parts[0].text\<close> when no message is left after the
  system messages are filtered out.
\<close>

definition gemini_request ::
  "string option \<Rightarrow> message list \<Rightarrow> generation_options \<Rightarrow> js_error + gemini_call" where
  "gemini_request modelName messages options =
     (case rev (chatMessages messages) of
        [] \<Rightarrow> Inl (TypeError ''Cannot read properties of undefined (reading 'parts')'')
      | final # _ \<Rightarrow>
          (case parts final of
             [] \<Rightarrow> Inl (TypeError ''Cannot read properties of undefined (reading 'text')'')
           | part # _ \<Rightarrow>
               Inr \<lparr>session = startChat modelName messages options, lastMessage = part\<rparr>))"

text \<open>
  \<^verbatim>\<open>generateResponse\<close> with the SDK as a parameter: the SDK either throws or answers.
\<close>

definition generateResponse ::
  "(gemini_call \<Rightarrow> js_error + gemini_response) \<Rightarrow> string option \<Rightarrow> message list \<Rightarrow>
   generation_options \<Rightarrow> js_error + provider_result" where
  "generateResponse sdk modelName messages options =
     (case gemini_request modelName messages options of
        Inl e \<Rightarrow> Inl e
      | Inr call \<Rightarrow>
          (case sdk call of
             Inl e \<Rightarrow> Inl e
           | Inr response \<Rightarrow>
               Inr \<lparr>result_text = Some (response_text response),
                    total_tokens = num_or (totalTokenCount response) 0\<rparr>))"

section \<open>OpenAI-compatible providers\<close>

text \<open>
  The request that the gateway hands to \<^verbatim>\<open>fetch\<close> for every provider but Gemini, and what
  comes back: \<^verbatim>\<open>fetch\<close> or \<^verbatim>\<open>response.json()\<close> throws (also the case of a content that
  is not a string, whose \<^verbatim>\<open>.trim\<close> is not a function), or the status is not ok
  (with \<^verbatim>\<open>response.status\<close>, \<^verbatim>\<open>errorData.error?.message\<close> and \<^verbatim>\<open>response.statusText\<close>),
  or it is ok (with \<^verbatim>\<open>data.choices?.[0]?.message?.content\<close> and
  \<^verbatim>\<open>data.usage?.total_tokens\<close>).
\<close>

record chat_completion =
  url :: string
  authorization :: string
  extra_headers :: "(string \<times> string) list"
  body_model :: "string option"
  body_messages :: "message list"
  max_tokens :: int
  body_temperature :: json_num
  extra_params :: "(string \<times> int) list"
  timeout :: nat

datatype fetch_result =
  FetchThrows js_error
| NotOk nat "string option" string
| Ok200 "string option" "int option"

text \<open>
  The running server: its environment, the built-in \<^verbatim>\<open>parseFloat\<close>, the system prompt of
  each template (\<^verbatim>\<open>TEMPLATES[id]?.systemPrompt\<close>; \<^verbatim>\<open>utils/templates.js\<close> is not in the
  sources), the Gemini SDK behind an API key, and \<^verbatim>\<open>fetch\<close>.
\<close>

record server =
  environ :: environment
  parseFloat :: "string \<Rightarrow> real option"
  TEMPLATES :: "string \<Rightarrow> string option"
  gemini_sdk :: "string \<Rightarrow> gemini_call \<Rightarrow> js_error + gemini_response"
  fetch :: "chat_completion \<Rightarrow> fetch_result"

definition chat_completions ::
  "server \<Rightarrow> string \<Rightarrow> property \<Rightarrow> string \<Rightarrow> string option \<Rightarrow> message list \<Rightarrow> int \<Rightarrow>
   json_num \<Rightarrow> string + provider_result" where
  "chat_completions srv providerKey providerConfig apiKey modelToUse messages mt temp =
     (case fetch srv
        \<lparr>url = js_str (baseUrl_of providerConfig) @ ''/chat/completions'',
         authorization = ''Bearer '' @ apiKey,
         extra_headers =
           (if providerKey = ''openrouter''
            then [(''HTTP-Referer'',
                   js_str (js_or (environ srv ''SITE_URL'') (Some ''https://localhost:3000''))),
                  (''X-Title'', ''DeepSite 2.0'')]
            else []),
         body_model = modelToUse,
         body_messages = messages,
         max_tokens = mt,
         body_temperature = temp,
         extra_params =
           (if providerKey = ''openrouter''
            then [(''top_p'', 1), (''frequency_penalty'', 0), (''presence_penalty'', 0)]
            else []),
         timeout = 120000\<rparr> of
        FetchThrows e \<Rightarrow> Inl (error_message e)
      | NotOk status errorMessage statusText \<Rightarrow> Inl (js_str (js_or errorMessage (Some statusText)))
      | Ok200 aiResponse tokens \<Rightarrow> Inr \<lparr>result_text = aiResponse, total_tokens = num_or tokens 0\<rparr>)"

section \<open>The chat endpoint with fallback\<close>

text \<open>
  The fields that the handler reads from \<^verbatim>\<open>req.body\<close>. Each is absent or a string;
  \<^verbatim>\<open>maxTokens\<close> and \<^verbatim>\<open>temperature\<close> are absent or a number.
\<close>

record ask_body = generation_options +
  prompt :: "string option"
  requestedProvider :: "string option"
  requestedModel :: "string option"
  sessionId :: "string option"
  templateId :: "string option"
  stack :: "string option"

definition FULL_STACK_SYSTEM_PROMPT :: string where
  "FULL_STACK_SYSTEM_PROMPT =
     ''You are an expert full-stack developer. \<newline>'' @
     ''Always generate a complete, production-ready full-stack application based on the requested tech stack.\<newline>'' @
     ''The output MUST follow this specific format for each file:\<newline>'' @
     ''\<newline>'' @
     ''# /path/to/file.ext\<newline>'' @
     ''```extension\<newline>'' @
     ''file content here\<newline>'' @
     ''```\<newline>'' @
     ''\<newline>'' @
     ''You must include:\<newline>'' @
     ''1. /frontend (React/Next.js/etc. with Tailwind CSS)\<newline>'' @
     ''2. /backend (Node.js/Express/Flask/etc.)\<newline>'' @
     ''3. Database schema (prisma/schema.prisma or SQLite/SQL)\<newline>'' @
     ''4. Full package.json files for both frontend and backend\<newline>'' @
     ''5. Dockerfile and docker-compose.yml\<newline>'' @
     ''6. A detailed README.md with setup and run commands.\<newline>'' @
     ''\<newline>'' @
     ''Focus on clean, modular code and follow best practices for the chosen stack.''"

text \<open>
  The list of providers to try: the requested one first when the registry has a property
  of that name, then every other registry key whose API key is set.
\<close>

definition api_key_of :: "environment \<Rightarrow> string \<Rightarrow> string option" where
  "api_key_of env key =
     (case PROVIDERS_get key of
        None \<Rightarrow> None
      | Some providerConfig \<Rightarrow> process_env env (apiKeyEnv_of providerConfig))"

definition providersToTry :: "environment \<Rightarrow> string option \<Rightarrow> string list" where
  "providersToTry env requested =
     (case requested of
        None \<Rightarrow> []
      | Some p \<Rightarrow> if p \<noteq> [] \<and> PROVIDERS_get p \<noteq> None then [p] else [])
     @ filter (\<lambda>key. Some key \<noteq> requested \<and> truthy (api_key_of env key)) provider_keys"

text \<open>The system message, the stored history and the new user message.\<close>

definition compose_messages :: "server \<Rightarrow> ask_body \<Rightarrow> chat_message list \<Rightarrow> message list" where
  "compose_messages srv body turns =
     (let systemPrompt =
            (case templateId body of
               None \<Rightarrow> FULL_STACK_SYSTEM_PROMPT
             | Some tid \<Rightarrow>
                 if tid \<noteq> [] \<and> truthy (TEMPLATES srv tid)
                 then js_str (TEMPLATES srv tid) @ ''\<newline>\<newline>'' @ FULL_STACK_SYSTEM_PROMPT
                 else FULL_STACK_SYSTEM_PROMPT)
      in \<lparr>role = ''system'',
          content = (if truthy (stack body)
                     then ''Project Stack: '' @ js_str (stack body) @ ''\<newline>\<newline>'' @ systemPrompt
                     else systemPrompt)\<rparr>
         # map (\<lambda>msg. \<lparr>role = role msg, content = content msg\<rparr>) turns
         @ [\<lparr>role = ''user'', content = js_str (prompt body)\<rparr>])"

text \<open>
  What the handler does that can be observed from outside: a read of the history, a call of
  \<^verbatim>\<open>saveMessage\<close>, and the invocation of a provider adapter with the model, the messages
  and the generation options.
\<close>

datatype event =
  HistoryRead string
| Saved chat_message
| AdapterCall string "string option" "message list" generation_options

text \<open>
  One pass of the loop body for one provider key: the provider is skipped without a key,
  fails with the text recorded in \<^verbatim>\<open>lastError\<close>, or succeeds with the provider name, the
  model, the response and the tokens used. \<^verbatim>\<open>PROVIDERS[providerKey]\<close> being \<^verbatim>\<open>undefined\<close>
  would throw out of the loop.
\<close>

datatype attempt =
  Skipped
| Failed string
| Succeeded "string option" "string option" string int
| Crashed js_error

text \<open>
  \<^verbatim>\<open>requestedModel || process.env[providerConfig.modelEnv] || providerConfig.defaultModel\<close>,
  \<^verbatim>\<open>maxTokens || DEFAULT_MAX_TOKENS\<close> and
  \<^verbatim>\<open>temperature !== undefined ? temperature : DEFAULT_TEMPERATURE\<close>.
\<close>

definition modelToUse :: "server \<Rightarrow> ask_body \<Rightarrow> property \<Rightarrow> string option" where
  "modelToUse srv body providerConfig =
     js_or (requestedModel body)
       (js_or (process_env (environ srv) (modelEnv_of providerConfig))
              (defaultModel_of providerConfig))"

definition max_tokens_for :: "server \<Rightarrow> ask_body \<Rightarrow> int" where
  "max_tokens_for srv body = num_or (maxTokens body) (DEFAULT_MAX_TOKENS (environ srv))"

definition temperature_for :: "server \<Rightarrow> ask_body \<Rightarrow> json_num" where
  "temperature_for srv body =
     (case temperature body of
        Some t \<Rightarrow> t
      | None \<Rightarrow> JNum (DEFAULT_TEMPERATURE (parseFloat srv) (environ srv)))"

text \<open>The two branches of the loop body that reach a provider; a failure carries its reason.\<close>

definition invoke_adapter ::
  "server \<Rightarrow> string \<Rightarrow> property \<Rightarrow> string \<Rightarrow> string option \<Rightarrow> message list \<Rightarrow> int \<Rightarrow>
   json_num \<Rightarrow> string + provider_result" where
  "invoke_adapter srv providerKey providerConfig apiKey model messages mt temp =
     (if providerKey = ''gemini''
      then (case generateResponse (gemini_sdk srv apiKey) model messages
                   \<lparr>maxTokens = Some mt, temperature = Some temp\<rparr> of
              Inl e \<Rightarrow> Inl (error_message e)
            | Inr result \<Rightarrow> Inr result)
      else chat_completions srv providerKey providerConfig apiKey model messages mt temp)"

definition try_provider ::
  "server \<Rightarrow> ask_body \<Rightarrow> message list \<Rightarrow> string \<Rightarrow> attempt \<times> event list" where
  "try_provider srv body messages providerKey =
     (case PROVIDERS_get providerKey of
        None \<Rightarrow> (Crashed (TypeError ''Cannot read properties of undefined (reading 'apiKeyEnv')''), [])
      | Some providerConfig \<Rightarrow>
          (let apiKey = process_env (environ srv) (apiKeyEnv_of providerConfig) in
           if \<not> truthy apiKey then (Skipped, [])
           else
             (let model = modelToUse srv body providerConfig;
                  mt = max_tokens_for srv body;
                  temp = temperature_for srv body;
                  called = [AdapterCall providerKey model messages
                              \<lparr>maxTokens = Some mt, temperature = Some temp\<rparr>]
              in case invoke_adapter srv providerKey providerConfig (js_str apiKey) model
                        messages mt temp of
                   Inl reason \<Rightarrow>
                     (Failed (js_str (name_of providerConfig) @ '': '' @ reason), called)
                 | Inr result \<Rightarrow>
                     if \<not> truthy (map_option trim (result_text result))
                     then (Failed (js_str (name_of providerConfig) @ '': Empty response received''),
                           called)
                     else (Succeeded (name_of providerConfig) model
                             (js_str (result_text result)) (total_tokens result),
                           called))))"

datatype loop_result =
  Done "string option" "string option" string int
| Exhausted "string option"
| Thrown js_error

fun attempts ::
  "server \<Rightarrow> ask_body \<Rightarrow> message list \<Rightarrow> string list \<Rightarrow> string option \<Rightarrow>
   loop_result \<times> event list" where
  "attempts srv body messages [] lastError = (Exhausted lastError, [])"
| "attempts srv body messages (providerKey # rest) lastError =
     (case try_provider srv body messages providerKey of
        (Skipped, called) \<Rightarrow> attempts srv body messages rest lastError
      | (Failed reason, called) \<Rightarrow>
          (let (result, more) = attempts srv body messages rest (Some reason)
           in (result, called @ more))
      | (Succeeded providerName model aiResponse tokens, called) \<Rightarrow>
          (Done providerName model aiResponse tokens, called)
      | (Crashed e, called) \<Rightarrow> (Thrown e, called))"

text \<open>\<^verbatim>\<open>providersToTry.map(key => PROVIDERS[key].name)\<close>\<close>

fun providersAttempted :: "string list \<Rightarrow> js_error + string option list" where
  "providersAttempted [] = Inr []"
| "providersAttempted (key # rest) =
     (case PROVIDERS_get key of
        None \<Rightarrow> Inl (TypeError ''Cannot read properties of undefined (reading 'name')'')
      | Some providerConfig \<Rightarrow>
          (case providersAttempted rest of
             Inl e \<Rightarrow> Inl e
           | Inr names \<Rightarrow> Inr (name_of providerConfig # names)))"

text \<open>
  The responses of \<^verbatim>\<open>/api/ask-ai\<close>: 400 with a message; 500 with a message and, after the
  loop, \<^verbatim>\<open>providersAttempted\<close>; 200 with \<^verbatim>\<open>response\<close>, \<^verbatim>\<open>modelUsed\<close>, \<^verbatim>\<open>providerUsed\<close>
  and \<^verbatim>\<open>tokensUsed\<close>.
\<close>

datatype response =
  Status400 string
| Status500 string "string option list option"
| Status200 string "string option" "string option" int

definition null_str :: "string option \<Rightarrow> string" where
  "null_str v = (case v of None \<Rightarrow> ''null'' | Some s \<Rightarrow> s)"

text \<open>
  The handler of \<^verbatim>\<open>POST /api/ask-ai\<close>. It takes the server, the Supabase client, the two
  clock readings at which the user row and the assistant row are written, and the request
  body; it returns the response, the events in order, and the Supabase state. History is
  read and rows are written only under \<^verbatim>\<open>sessionId && supabase\<close>.
\<close>

definition persists :: "supabase \<Rightarrow> ask_body \<Rightarrow> bool" where
  "persists sb body = (truthy (sessionId body) \<and> sb \<noteq> None)"

definition request_messages :: "server \<Rightarrow> supabase \<Rightarrow> ask_body \<Rightarrow> message list" where
  "request_messages srv sb body =
     compose_messages srv body
       (if persists sb body then getChatHistory sb (js_str (sessionId body)) else [])"

definition user_row :: "ask_body \<Rightarrow> int \<Rightarrow> chat_message" where
  "user_row body t =
     \<lparr>role = ''user'', content = js_str (prompt body), session_id = js_str (sessionId body),
      timestamp = t, created_at = t\<rparr>"

definition assistant_row :: "ask_body \<Rightarrow> string \<Rightarrow> int \<Rightarrow> chat_message" where
  "assistant_row body aiResponse t =
     \<lparr>role = ''assistant'', content = aiResponse, session_id = js_str (sessionId body),
      timestamp = t, created_at = t\<rparr>"

definition ask_ai ::
  "server \<Rightarrow> supabase \<Rightarrow> int \<Rightarrow> int \<Rightarrow> ask_body \<Rightarrow> response \<times> event list \<times> supabase" where
  "ask_ai srv sb t_user t_assistant body =
     (if \<not> truthy (map_option trim (prompt body))
      then (Status400 ''Missing or empty prompt'', [], sb)
      else
        (let candidates = providersToTry (environ srv) (requestedProvider body) in
         if candidates = []
         then (Status500 ''No AI providers configured with API keys'' None, [], sb)
         else
           (let messages = request_messages srv sb body;
                sb1 = (if persists sb body then saveMessage sb (user_row body t_user) else sb);
                before = (if persists sb body
                          then [HistoryRead (js_str (sessionId body)), Saved (user_row body t_user)]
                          else []);
                (outcome, called) = attempts srv body messages candidates None
            in case outcome of
                 Done providerName model aiResponse tokens \<Rightarrow>
                   (Status200 aiResponse model providerName tokens,
                    before @ called @
                      (if persists sb body then [Saved (assistant_row body aiResponse t_assistant)]
                       else []),
                    if persists sb body
                    then saveMessage sb1 (assistant_row body aiResponse t_assistant) else sb1)
               | Exhausted lastError \<Rightarrow>
                   (case providersAttempted candidates of
                      Inr names \<Rightarrow>
                        (Status500 (''All AI providers failed. Last error: '' @ null_str lastError)
                           (Some names),
                         before @ called, sb1)
                    | Inl e \<Rightarrow> (Status500 (error_message e) None, before @ called, sb1))
               | Thrown e \<Rightarrow> (Status500 (error_message e) None, before @ called, sb1))))"

section \<open>The connection test\<close>





section \<open>Reading the event log\<close>



text \<open>A prompt that \<^verbatim>\<open>!prompt?.trim()\<close> rejects: absent, empty or white space only.\<close>

definition blank :: "string option \<Rightarrow> bool" where
  "blank p = (case p of None \<Rightarrow> True | Some s \<Rightarrow> list_all is_js_space s)"

section \<open>Concrete servers and requests\<close>

text \<open>
  A server with the given environment and \<^verbatim>\<open>fetch\<close>, no template, a \<^verbatim>\<open>parseFloat\<close> that
  reads no number from any text, and a Gemini SDK that echoes the text it is sent.
\<close>

definition stub_server :: "environment \<Rightarrow> (chat_completion \<Rightarrow> fetch_result) \<Rightarrow> server" where
  "stub_server e f =
     \<lparr>environ = e, parseFloat = (\<lambda>v. None), TEMPLATES = (\<lambda>tid. None),
      gemini_sdk = (\<lambda>apiKey call. Inr \<lparr>response_text = lastMessage call, totalTokenCount = Some 7\<rparr>),
      fetch = f\<rparr>"

definition fetch_down :: "chat_completion \<Rightarrow> fetch_result" where
  "fetch_down c = FetchThrows (Error ''down'')"

text \<open>Only Groq answers; every other provider is out of service.\<close>

definition fetch_only_groq :: "chat_completion \<Rightarrow> fetch_result" where
  "fetch_only_groq c =
     (if url c = ''https://api.groq.com/openai/v1/chat/completions''
      then Ok200 (Some ''<html></html>'') (Some 42)
      else NotOk 503 None ''Service Unavailable'')"

definition plain_body :: "string \<Rightarrow> string option \<Rightarrow> string option \<Rightarrow> ask_body" where
  "plain_body text_of_prompt p sid =
     \<lparr>maxTokens = None, temperature = None, prompt = Some text_of_prompt,
      requestedProvider = p, requestedModel = None, sessionId = sid, templateId = None,
      stack = None\<rparr>"

definition empty_db :: database where
  "empty_db = \<lparr>chat_messages = [], reachable = True\<rparr>"

text \<open>A session of 51 turns, created at the instants 1 to 51.\<close>

definition turns51 :: "chat_message list" where
  "turns51 =
     map (\<lambda>i. \<lparr>role = (if even i then ''assistant'' else ''user''), content = ''turn'',
               session_id = ''s1'', timestamp = int i, created_at = int i\<rparr>) [1..<52]"

text \<open>Environments with one and with two configured providers.\<close>

definition env_groq :: environment where
  "env_groq = [''GROQ_API_KEY'' \<mapsto> ''gsk-1'']"

definition env_openai_groq :: environment where
  "env_openai_groq = [''OPENAI_API_KEY'' \<mapsto> ''sk-1'', ''GROQ_API_KEY'' \<mapsto> ''gsk-1'']"



text \<open>The environment with \<^verbatim>\<open>IP_RATE_LIMIT=0\<close>.\<close>

definition env_limit_zero :: environment where
  "env_limit_zero = [''IP_RATE_LIMIT'' \<mapsto> ''0'']"





section \<open>Prompt validation\<close>

lemma trim_empty_iff: "trim s = [] \<longleftrightarrow> list_all is_js_space s"
proof
  assume "trim s = []"
  then have all: "\<forall>x\<in>set (dropWhile is_js_space s). is_js_space x"
    by (simp add: trim_def dropWhile_eq_Nil_conv)
  have "dropWhile is_js_space s = []"
  proof (rule ccontr)
    assume ne: "dropWhile is_js_space s \<noteq> []"
    then have "\<not> is_js_space (hd (dropWhile is_js_space s))" by (rule hd_dropWhile)
    moreover from ne have "hd (dropWhile is_js_space s) \<in> set (dropWhile is_js_space s)" by simp
    ultimately show False using all by blast
  qed
  then show "list_all is_js_space s" by (simp add: dropWhile_eq_Nil_conv list_all_iff)
next
  assume "list_all is_js_space s"
  then show "trim s = []"
    by (auto simp: trim_def list_all_iff dropWhile_eq_Nil_conv dest: set_dropWhileD)
qed

lemma blank_iff: "blank p \<longleftrightarrow> \<not> truthy (map_option trim p)"
  by (cases p) (simp_all add: blank_def truthy_def trim_empty_iff)

text \<open>
  Claim C6. A request whose prompt is absent, empty or white space only is answered 400
  with no event at all: no provider adapter is invoked, the history is not read, nothing is
  handed to \<open>saveMessage\<close>, and the store is returned unchanged.
\<close>

theorem ask_ai_rejects_blank_prompt:
  "blank (prompt body) \<Longrightarrow>
     ask_ai srv sb t_user t_assistant body = (Status400 ''Missing or empty prompt'', [], sb)"
  using blank_iff[of "prompt body"] by (simp add: ask_ai_def)

theorem ask_ai_rejects_blank_prompt_witness:
  "ask_ai (stub_server env_groq fetch_only_groq) (Some empty_db) 1 2
     (plain_body [CHR '' '', CHR 0x09, CHR 0x0A] (Some ''groq'') (Some ''s1''))
   = (Status400 ''Missing or empty prompt'', [], Some empty_db)"
  using ask_ai_rejects_blank_prompt
    [of "plain_body [CHR '' '', CHR 0x09, CHR 0x0A] (Some ''groq'') (Some ''s1'')"
        "stub_server env_groq fetch_only_groq" "Some empty_db" 1 2]
  by (simp add: blank_def plain_body_def is_js_space_def)

section \<open>The attempt loop\<close>


















text \<open>Unfolding the handler on the concrete servers and requests.\<close>

lemmas eval_defs = ask_ai_def stub_server_def plain_body_def env_groq_def env_openai_groq_def
  fetch_down_def fetch_only_groq_def providersToTry_def api_key_of_def PROVIDERS_get_def
  PROVIDERS_def provider_keys_def process_env_def truthy_def js_str_def js_or_def trim_def
  is_js_space_def try_provider_def invoke_adapter_def chat_completions_def modelToUse_def
  max_tokens_for_def temperature_for_def persists_def request_messages_def user_row_def
  assistant_row_def null_str_def object_prototype_keys_def empty_db_def saveMessage_def
  getChatHistory_def num_or_def Let_def







section \<open>A requested provider without an API key\<close>




text \<open>
  Claim C7 fails on the code at a request that names a registry provider while no API key
  is set at all: the candidate list holds the requested provider, the check for an empty
  list does not fire, the loop skips the provider, and the answer is the 500 of an
  exhausted loop, with \<open>Last error: null\<close>, not \<open>No AI providers configured\<close>.
\<close>

theorem no_key_requested_provider_all_failed:
  "ask_ai (stub_server Map.empty fetch_down) None 1 2 (plain_body ''hi'' (Some ''openai'') None)
     = (Status500 ''All AI providers failed. Last error: null'' (Some [Some ''OpenAI'']), [], None)"
  by (simp add: eval_defs)


section \<open>Persisted turns\<close>







section \<open>Model and generation options\<close>









section \<open>The sliding window of the rate limiter\<close>

lemma js_min_sorted: "sorted (x # xs) \<Longrightarrow> js_min (x # xs) = Some x"
proof -
  assume s: "sorted (x # xs)"
  have "fold min xs x = Min (set (x # xs))" by (rule Min.set_eq_fold[symmetric])
  also have "\<dots> = x" using s by (intro Min_eqI) auto
  finally show ?thesis by (simp add: js_min_def)
qed

lemma ceil_div_pos: "0 < x \<Longrightarrow> 0 < ceil_div x 60000"
  unfolding ceil_div_def
proof -
  assume "0 < x"
  then have "(- x) div 60000 < 0" by (simp add: div_neg_pos_less0)
  then show "0 < - ((- x) div 60000)" by simp
qed

text \<open>The stored timestamps of a client that are inside the window at a clock reading.\<close>

lemma live_twice:
  "s \<le> t \<Longrightarrow> filter (\<lambda>x. s - 3600000 < x \<and> t - 3600000 < x) xs
             = filter (\<lambda>x. (t::int) - 3600000 < x) xs"
  by (induction xs) auto

lemma live_cleanup:
  assumes "s \<le> t"
  shows "filter (\<lambda>x. t - 3600000 < x) (timestamps_of (cleanup cache s) ip)
           = filter (\<lambda>x. t - 3600000 < x) (timestamps_of cache ip)"
proof (cases "cache ip")
  case None
  then show ?thesis by (simp add: cleanup_def timestamps_of_def)
next
  case (Some ts)
  show ?thesis
  proof (cases "filter (\<lambda>x. s - 3600000 < x) ts = []")
    case True
    then have "\<forall>x\<in>set ts. \<not> s - 3600000 < x" by (simp add: filter_empty_conv)
    with assms have "\<forall>x\<in>set ts. \<not> t - 3600000 < x" by auto
    then have "filter (\<lambda>x. t - 3600000 < x) ts = []" by (simp add: filter_empty_conv)
    with Some True show ?thesis by (simp add: cleanup_def timestamps_of_def)
  next
    case False
    with Some assms show ?thesis
      by (simp add: cleanup_def timestamps_of_def live_twice)
  qed
qed

lemma mw_checked:
  assumes "0 < cap" "\<not> is_static_path (path req)"
    and "\<not> (cache (client_ip req) = None \<and> client_ip req \<in> set object_prototype_keys)"
  shows "rate_limit_middleware cap cache req now =
     (let ip = client_ip req;
          kept = filter (\<lambda>t. now - 3600000 < t) (timestamps_of cache ip)
      in if cap \<le> int (length kept)
         then (Inr (Status429 (map_option (\<lambda>m. ceil_div (m + 3600000 - now) 60000) (js_min kept))
                              (map_option (\<lambda>m. m + 3600000) (js_min kept))),
               cache(ip \<mapsto> kept))
         else (Inr (Next \<lparr>limited = False, requestCount = Some (length kept),
                           remainingRequests = Some (cap - int (length kept)),
                           clientIp = Some ip, resetTime = None\<rparr>),
               cache(ip \<mapsto> kept @ [now])))"
  using assms by (simp add: rate_limit_middleware_def Let_def option.map_comp comp_def)

lemma mw_throws:
  assumes "0 < cap" "\<not> is_static_path (path req)"
    and "cache (client_ip req) = None \<and> client_ip req \<in> set object_prototype_keys"
  shows "rate_limit_middleware cap cache req now =
           (Inl (TypeError ''ipRequestCache[clientIp].filter is not a function''), cache)"
  using assms by (simp add: rate_limit_middleware_def Let_def)

lemma mw_decides:
  assumes "0 < cap" "\<not> is_static_path (path req)"
    and "rate_limit_middleware cap c req n = (Inr r, c1)"
  shows "let kept = filter (\<lambda>t. n - 3600000 < t) (timestamps_of c (client_ip req)) in
           (admitted (Inr r) \<longleftrightarrow> int (length kept) < cap) \<and>
           c1 (client_ip req) = Some (if int (length kept) < cap then kept @ [n] else kept)"
proof (cases "c (client_ip req) = None \<and> client_ip req \<in> set object_prototype_keys")
  case True
  with assms(1,2) have "rate_limit_middleware cap c req n =
      (Inl (TypeError ''ipRequestCache[clientIp].filter is not a function''), c)"
    by (rule mw_throws)
  with assms(3) show ?thesis by simp
next
  case False
  with assms(1,2) have "rate_limit_middleware cap c req n =
     (let ip = client_ip req;
          kept = filter (\<lambda>t. n - 3600000 < t) (timestamps_of c ip)
      in if cap \<le> int (length kept)
         then (Inr (Status429 (map_option (\<lambda>m. ceil_div (m + 3600000 - n) 60000) (js_min kept))
                              (map_option (\<lambda>m. m + 3600000) (js_min kept))),
               c(ip \<mapsto> kept))
         else (Inr (Next \<lparr>limited = False, requestCount = Some (length kept),
                           remainingRequests = Some (cap - int (length kept)),
                           clientIp = Some ip, resetTime = None\<rparr>),
               c(ip \<mapsto> kept @ [n])))"
    by (rule mw_checked)
  with assms(3) show ?thesis
    by (auto simp: admitted_def Let_def split: if_splits)
qed

lemma admitted_not_static:
  assumes "rate_limit_middleware cap cache req now = (r, cache1)" "admitted r"
  shows "\<not> is_static_path (path req)"
proof
  assume "is_static_path (path req)"
  then have "rate_limit_middleware cap cache req now = (Inr (Next no_limit), cache)"
    by (simp add: rate_limit_middleware_def)
  with assms show False by (auto simp: admitted_def no_limit_def)
qed

lemma mw_admitted:
  assumes "0 < cap"
    and "rate_limit_middleware cap cache req now = (r, cache1)" "admitted r"
  shows "int (length (filter (\<lambda>t. now - 3600000 < t) (timestamps_of cache (client_ip req)))) < cap"
    and "timestamps_of cache1 (client_ip req)
           = filter (\<lambda>t. now - 3600000 < t) (timestamps_of cache (client_ip req)) @ [now]"
proof -
  from assms(2,3) have static: "\<not> is_static_path (path req)" by (rule admitted_not_static)
  from assms(3) obtain info where r: "r = Inr (Next info)"
    by (auto simp: admitted_def split: sum.splits mw_result.splits)
  with assms(2) have run: "rate_limit_middleware cap cache req now = (Inr (Next info), cache1)"
    by simp
  from mw_decides[OF assms(1) static run] assms(3) r
  show "int (length (filter (\<lambda>t. now - 3600000 < t) (timestamps_of cache (client_ip req)))) < cap"
    and "timestamps_of cache1 (client_ip req)
           = filter (\<lambda>t. now - 3600000 < t) (timestamps_of cache (client_ip req)) @ [now]"
    by (simp_all add: Let_def timestamps_of_def)
qed

lemma request_times_subset: "set (request_times es) \<subseteq> time_of ` set es"
  by (induction es rule: request_times.induct) auto

lemma last_request_time_le:
  "request_times es \<noteq> [] \<Longrightarrow> \<forall>e\<in>set es. s \<le> time_of e \<Longrightarrow> s \<le> last (request_times es)"
proof -
  assume ne: "request_times es \<noteq> []" and le: "\<forall>e\<in>set es. s \<le> time_of e"
  from ne have "last (request_times es) \<in> set (request_times es)" by simp
  with request_times_subset[of es] le show ?thesis by auto
qed

text \<open>
  While every request of a run is admitted, the timestamps inside the window at \<open>now\<close> are
  the ones that were inside it before, followed by the clock readings of the requests; the
  cleanup does not show.
\<close>

lemma run_admitted:
  assumes "0 < cap"
  shows "run cap req cache es = (outs, cache1) \<Longrightarrow> \<forall>r\<in>set outs. admitted r \<Longrightarrow>
         sorted (map time_of es) \<Longrightarrow> \<forall>e\<in>set es. time_of e \<le> now \<Longrightarrow>
         \<forall>t\<in>set (request_times es). now - 3600000 < t \<Longrightarrow>
         filter (\<lambda>x. now - 3600000 < x) (timestamps_of cache1 (client_ip req))
           = filter (\<lambda>x. now - 3600000 < x) (timestamps_of cache (client_ip req)) @ request_times es
         \<and> (request_times es \<noteq> [] \<longrightarrow>
              int (length (filter (\<lambda>x. last (request_times es) - 3600000 < x)
                             (timestamps_of cache (client_ip req)))
                   + length (request_times es)) \<le> cap)"
proof (induction es arbitrary: cache outs)
  case Nil
  then show ?case by simp
next
  case (Cons e es)
  let ?ip = "client_ip req"
  from Cons.prems(3) have sorted: "sorted (map time_of es)"
    and first: "\<forall>x\<in>set es. time_of e \<le> time_of x" by simp_all
  from Cons.prems(4) have below: "\<forall>x\<in>set es. time_of x \<le> now" and enow: "time_of e \<le> now"
    by simp_all
  show ?case
  proof (cases e)
    case (Sweep s)
    with Cons.prems(1) have rest: "run cap req (cleanup cache s) es = (outs, cache1)" by simp
    from Sweep Cons.prems(5) have win: "\<forall>t\<in>set (request_times es). now - 3600000 < t" by simp
    note IH = Cons.IH[OF rest Cons.prems(2) sorted below win]
    from Sweep enow have snow: "s \<le> now" by simp
    have later: "request_times es \<noteq> [] \<Longrightarrow> s \<le> last (request_times es)"
      using first Sweep by (intro last_request_time_le) auto
    from IH snow later show ?thesis
      by (auto simp: Sweep live_cleanup)
  next
    case (Request t)
    obtain r c1 where step: "rate_limit_middleware cap cache req t = (r, c1)"
      by (cases "rate_limit_middleware cap cache req t")
    obtain rs c2 where rest: "run cap req c1 es = (rs, c2)"
      by (cases "run cap req c1 es")
    from Cons.prems(1) Request step rest have outs: "outs = r # rs" and c2: "c2 = cache1"
      by simp_all
    with Cons.prems(2) have adm: "admitted r" and adms: "\<forall>r\<in>set rs. admitted r" by simp_all
    from rest c2 have rest': "run cap req c1 es = (rs, cache1)" by simp
    from Request Cons.prems(5) have win: "\<forall>x\<in>set (request_times es). now - 3600000 < x"
      and twin: "now - 3600000 < t" by simp_all
    from Request enow have tnow: "t \<le> now" by simp
    note small = mw_admitted(1)[OF assms step adm]
    note c1 = mw_admitted(2)[OF assms step adm]
    note IH = Cons.IH[OF rest' adms sorted below win]
    have now_part: "filter (\<lambda>x. now - 3600000 < x) (timestamps_of c1 ?ip)
        = filter (\<lambda>x. now - 3600000 < x) (timestamps_of cache ?ip) @ [t]"
      using tnow twin by (simp add: c1 live_twice)
    show ?thesis
    proof (cases "request_times es = []")
      case True
      with IH now_part small show ?thesis by (simp add: Request)
    next
      case False
      then have tl: "t \<le> last (request_times es)"
        using first Request by (intro last_request_time_le) auto
      from False win have "now - 3600000 < last (request_times es)" by simp
      from False below request_times_subset[of es] have "last (request_times es) \<le> now"
        by (metis (no_types, lifting) image_iff last_in_set subsetD)
      with twin have keep: "last (request_times es) - 3600000 < t" by simp
      have last_part: "filter (\<lambda>x. last (request_times es) - 3600000 < x) (timestamps_of c1 ?ip)
          = filter (\<lambda>x. last (request_times es) - 3600000 < x) (timestamps_of cache ?ip) @ [t]"
        using tl keep by (simp add: c1 live_twice)
      from IH False show ?thesis
        by (simp add: Request now_part last_part)
    qed
  qed
qed

lemma run_not_static:
  "run cap req cache es = (outs, cache1) \<Longrightarrow> \<forall>r\<in>set outs. admitted r \<Longrightarrow>
   request_times es \<noteq> [] \<Longrightarrow> \<not> is_static_path (path req)"
proof (induction es arbitrary: cache outs)
  case Nil
  then show ?case by simp
next
  case (Cons e es)
  show ?case
  proof (cases e)
    case (Sweep s)
    with Cons.prems have "run cap req (cleanup cache s) es = (outs, cache1)"
      and "request_times es \<noteq> []" by simp_all
    from Cons.IH[OF this(1) Cons.prems(2) this(2)] show ?thesis .
  next
    case (Request t)
    obtain r c1 where step: "rate_limit_middleware cap cache req t = (r, c1)"
      by (cases "rate_limit_middleware cap cache req t")
    obtain rs c2 where rest: "run cap req c1 es = (rs, c2)"
      by (cases "run cap req c1 es")
    from Cons.prems(1) Request step rest have "outs = r # rs" by simp
    with Cons.prems(2) have "admitted r" by simp
    with step show ?thesis by (rule admitted_not_static)
  qed
qed

lemma sorted_request_times: "sorted (map time_of es) \<Longrightarrow> sorted (request_times es)"
proof (induction es rule: request_times.induct)
  case 1
  then show ?case by simp
next
  case (2 t es)
  then show ?case using request_times_subset[of es] by auto
next
  case (3 t es)
  then show ?case by simp
qed

text \<open>
  Claim C5. With the limiter enabled at capacity \<open>cap\<close> and a path that is not a static
  asset: when one client has sent \<open>cap\<close> requests, all of them admitted and all within the
  3600 seconds before \<open>now\<close> (the periodic cleanup running at any moments in between), the
  next request at \<open>now\<close> is answered 429 with a positive \<^verbatim>\<open>waitTimeMinutes\<close>, computed from
  the oldest remaining timestamp (the first of the request times, which is the least);
  from that timestamp plus 3600000 on the client is admitted again; and every check decides on the stored timestamps that are younger than
  \<open>now - 3600000\<close> and stores only those, with the new one when it admits.
\<close>

theorem rate_limiter_sliding_window:
  assumes "0 < cap"
    and "run cap req cache es = (outs, cache1)" and "\<forall>r\<in>set outs. admitted r"
    and "length (request_times es) = nat cap"
    and "sorted (map time_of es)" and "\<forall>e\<in>set es. time_of e \<le> now"
    and "\<forall>t\<in>set (request_times es). now - 3600000 < t"
  shows "rate_limit_middleware cap cache1 req now =
           (Inr (Status429 (Some (ceil_div (hd (request_times es) + 3600000 - now) 60000))
                           (Some (hd (request_times es) + 3600000))),
            cache1(client_ip req \<mapsto> request_times es))
       \<and> 0 < ceil_div (hd (request_times es) + 3600000 - now) 60000
       \<and> (\<forall>t\<in>set (request_times es). hd (request_times es) \<le> t)
       \<and> (\<forall>now2. hd (request_times es) + 3600000 \<le> now2 \<longrightarrow>
              admitted (fst (rate_limit_middleware cap
                               (cache1(client_ip req \<mapsto> request_times es)) req now2)))
       \<and> (\<forall>c n r c1. rate_limit_middleware cap c req n = (Inr r, c1) \<longrightarrow>
              (let kept = filter (\<lambda>t. n - 3600000 < t) (timestamps_of c (client_ip req)) in
                 (admitted (Inr r) \<longleftrightarrow> int (length kept) < cap) \<and>
                 c1 (client_ip req) = Some (if int (length kept) < cap then kept @ [n] else kept)))"
proof -
  let ?ip = "client_ip req"
  let ?ts = "request_times es"
  from assms(1,4) have ne: "?ts \<noteq> []" by auto
  then obtain t0 rest where ts: "?ts = t0 # rest" by (cases ?ts) auto
  from assms(2,3) ne have static: "\<not> is_static_path (path req)" by (rule run_not_static)
  have sorted: "sorted ?ts" using assms(5) by (rule sorted_request_times)
  have oldest: "\<forall>t\<in>set ?ts. hd ?ts \<le> t" using sorted ts by auto
  note run = run_admitted[OF assms(1,2,3,5,6,7)]
  from run ne assms(1,4)
  have "filter (\<lambda>x. last ?ts - 3600000 < x) (timestamps_of cache ?ip) = []" by auto
  then have none: "\<forall>x\<in>set (timestamps_of cache ?ip). \<not> last ?ts - 3600000 < x"
    by (simp add: filter_empty_conv)
  from ne have "last ?ts \<in> set ?ts" by simp
  with request_times_subset[of es] assms(6) have "last ?ts \<le> now" by auto
  with none have "\<forall>x\<in>set (timestamps_of cache ?ip). \<not> now - 3600000 < x" by auto
  then have "filter (\<lambda>x. now - 3600000 < x) (timestamps_of cache ?ip) = []"
    by (simp add: filter_empty_conv)
  with run have kept: "filter (\<lambda>x. now - 3600000 < x) (timestamps_of cache1 ?ip) = ?ts" by simp
  with ne have "timestamps_of cache1 ?ip \<noteq> []" by auto
  then have nothrow: "\<not> (cache1 ?ip = None \<and> ?ip \<in> set object_prototype_keys)"
    by (auto simp: timestamps_of_def)
  have jm: "js_min ?ts = Some (hd ?ts)" using sorted ts by (simp add: js_min_sorted)
  from assms(7) ts have "0 < hd ?ts + 3600000 - now" by simp
  then have pos: "0 < ceil_div (hd ?ts + 3600000 - now) 60000" by (rule ceil_div_pos)
  have full: "cap \<le> int (length ?ts)" using assms(1,4) by simp
  have rejected: "rate_limit_middleware cap cache1 req now =
           (Inr (Status429 (Some (ceil_div (hd ?ts + 3600000 - now) 60000))
                           (Some (hd ?ts + 3600000))),
            cache1(?ip \<mapsto> ?ts))"
    using mw_checked[of cap req cache1 now] assms(1) static nothrow
    by (simp add: kept jm full Let_def)
  have again: "admitted (fst (rate_limit_middleware cap (cache1(?ip \<mapsto> ?ts)) req now2))"
    if late: "hd ?ts + 3600000 \<le> now2" for now2
  proof -
    let ?c = "cache1(?ip \<mapsto> ?ts)"
    have nothrow2: "\<not> (?c ?ip = None \<and> ?ip \<in> set object_prototype_keys)" by simp
    have old: "timestamps_of ?c ?ip = ?ts" by (simp add: timestamps_of_def)
    from ne late have "hd ?ts \<in> set ?ts" "\<not> now2 - 3600000 < hd ?ts" by simp_all
    then have "length (filter (\<lambda>t. now2 - 3600000 < t) ?ts) < length ?ts"
      by (intro length_filter_less)
    with assms(1,4) have "\<not> cap \<le> int (length (filter (\<lambda>t. now2 - 3600000 < t) ?ts))"
      by simp
    with mw_checked[of cap req ?c now2] assms(1) static nothrow2
    show ?thesis by (simp add: old Let_def admitted_def)
  qed
  have purge: "let kept = filter (\<lambda>t. n - 3600000 < t) (timestamps_of c (client_ip req)) in
                 (admitted (Inr r) \<longleftrightarrow> int (length kept) < cap) \<and>
                 c1 (client_ip req) = Some (if int (length kept) < cap then kept @ [n] else kept)"
    if "rate_limit_middleware cap c req n = (Inr r, c1)" for c n r c1
    using assms(1) static that by (rule mw_decides)
  from rejected pos oldest again purge show ?thesis by blast
qed

lemma client_1234_simps:
  "\<not> is_static_path (path client_1234)" "client_ip client_1234 = ''1.2.3.4''"
  by (simp_all add: client_1234_def is_static_path_def ends_with_def client_ip_def js_or_def
                    truthy_def js_str_def)

lemma client_1234_run:
  "run 2 client_1234 Map.empty [Request 1000, Sweep 1500, Request 2000] =
   ([Inr (Next \<lparr>limited = False, requestCount = Some 0, remainingRequests = Some 2,
                  clientIp = Some ''1.2.3.4'', resetTime = None\<rparr>),
     Inr (Next \<lparr>limited = False, requestCount = Some 1, remainingRequests = Some 1,
                  clientIp = Some ''1.2.3.4'', resetTime = None\<rparr>)],
    (cleanup [''1.2.3.4'' \<mapsto> [1000]] 1500)(''1.2.3.4'' \<mapsto> [1000, 2000]))"
  by (simp add: rate_limit_middleware_def client_1234_simps timestamps_of_def Let_def
                object_prototype_keys_def cleanup_def)

theorem rate_limiter_sliding_window_witness:
  "fst (rate_limit_middleware 2 (snd (run 2 client_1234 Map.empty
                                          [Request 1000, Sweep 1500, Request 2000]))
          client_1234 30000)
     = Inr (Status429 (Some 60) (Some 3601000))
   \<and> admitted (fst (rate_limit_middleware 2
                      ((snd (run 2 client_1234 Map.empty
                               [Request 1000, Sweep 1500, Request 2000]))
                         (''1.2.3.4'' \<mapsto> [1000, 2000]))
                      client_1234 3601000))"
proof -
  let ?es = "[Request 1000, Sweep 1500, Request 2000]"
  have a: "\<forall>r\<in>set (fst (run 2 client_1234 Map.empty ?es)). admitted r"
    unfolding client_1234_run by (simp add: admitted_def)
  have b: "\<forall>t\<in>set (request_times ?es). 30000 - 3600000 < t" by simp
  have c: "run 2 client_1234 Map.empty ?es =
       (fst (run 2 client_1234 Map.empty ?es), snd (run 2 client_1234 Map.empty ?es))"
    by simp
  have d: "length (request_times ?es) = nat 2" by simp
  have e: "sorted (map time_of ?es)" by simp
  have f: "\<forall>e\<in>set ?es. time_of e \<le> 30000" by simp
  have g: "(0::int) < 2" by simp
  from rate_limiter_sliding_window[OF g c a d e f b]
  show ?thesis
    by (simp add: client_1234_simps ceil_div_def)
qed

section \<open>The limit of zero\<close>

text \<open>The guard of the middleware does switch the limiter off for a limit of zero or less.\<close>

lemma limit_guard_works:
  "cap \<le> 0 \<Longrightarrow> rate_limit_middleware cap cache req now = (Inr (Next no_limit), cache)"
  by (simp add: rate_limit_middleware_def)

text \<open>But the startup constant is never zero.\<close>

lemma IP_RATE_LIMIT_nonzero: "IP_RATE_LIMIT env \<noteq> 0"
  by (simp add: IP_RATE_LIMIT_def num_or_def split: option.splits)

text \<open>
  Claim C3 fails on the code: with \<open>IP_RATE_LIMIT=0\<close> the constant is 100, since
  \<open>parseInt("0") || 100\<close> takes the zero for an absent value. One client is admitted 100
  times within a tenth of a second, each timestamp recorded, and its next request is
  answered 429.
\<close>

theorem limit_zero_still_limits:
  "IP_RATE_LIMIT env_limit_zero = 100
   \<and> map admitted (fst (run (IP_RATE_LIMIT env_limit_zero) client_1234 Map.empty
                          (map (\<lambda>t. Request (int t)) [0..<100])))
       = replicate 100 True
   \<and> fst (rate_limit_middleware (IP_RATE_LIMIT env_limit_zero)
            (snd (run (IP_RATE_LIMIT env_limit_zero) client_1234 Map.empty
                    (map (\<lambda>t. Request (int t)) [0..<100])))
            client_1234 100)
       = Inr (Status429 (Some 60) (Some 3600000))"
  by code_simp


section \<open>History retrieval\<close>

text \<open>The history has at most 50 turns, all of the session, oldest first.\<close>

lemma getChatHistory_length: "length (getChatHistory sb sid) \<le> 50"
  by (simp add: getChatHistory_def split: option.splits)

lemma getChatHistory_sorted: "sorted (map created_at (getChatHistory sb sid))"
  by (simp add: getChatHistory_def take_map[symmetric] sorted_wrt_take split: option.splits)

lemma getChatHistory_session: "\<forall>row\<in>set (getChatHistory sb sid). session_id row = sid"
  by (auto simp: getChatHistory_def split: option.splits dest!: in_set_takeD)

text \<open>Which turns are returned: the first 50 in ascending order, none younger than one left out.\<close>

lemma getChatHistory_oldest:
  assumes "reachable db"
  shows "getChatHistory (Some db) sid
           = take 50 (sort_key created_at (filter (\<lambda>row. session_id row = sid) (chat_messages db)))
       \<and> (\<forall>a\<in>set (take 50 (sort_key created_at
                              (filter (\<lambda>row. session_id row = sid) (chat_messages db)))).
            \<forall>b\<in>set (drop 50 (sort_key created_at
                              (filter (\<lambda>row. session_id row = sid) (chat_messages db)))).
              created_at a \<le> created_at b)"
proof -
  let ?s = "sort_key created_at (filter (\<lambda>row. session_id row = sid) (chat_messages db))"
  have "sorted (map created_at (take 50 ?s @ drop 50 ?s))" by simp
  then have "\<forall>a\<in>set (take 50 ?s). \<forall>b\<in>set (drop 50 ?s). created_at a \<le> created_at b"
    unfolding map_append sorted_append by auto
  with assms show ?thesis by (simp add: getChatHistory_def)
qed

text \<open>
  Claim C4 fails on the code in its last part: of a session of 51 turns the query, which
  sorts by ascending creation instant and then cuts after 50 rows, returns the turns 1 to
  50. The most recent turn, 51, is the one left out.
\<close>

theorem history_returns_oldest_fifty:
  "map created_at (getChatHistory (Some \<lparr>chat_messages = turns51, reachable = True\<rparr>) ''s1'')
     = map int [1..<51]"
  by code_simp


section \<open>The request of the Gemini adapter\<close>









section \<open>The adapter is never given system messages only\<close>








end
